theory Spec2Isabelle
  imports Main "HOL-Library.Sublist"
begin

section \<open>String primitives used by the stack\<close>

text \<open>
  Strings are \<open>char list\<close>. The two host languages of the source (Python for the stack,
  JavaScript for the inline CloudFront function) test strings with \<open>endswith\<close> /
  \<open>endsWith\<close> and \<open>includes\<close>; both are written out here as executable functions.
\<close>

fun startswith :: "string \<Rightarrow> string \<Rightarrow> bool" where
  "startswith s [] = True"
| "startswith [] (c # t) = False"
| "startswith (d # s) (c # t) = (d = c \<and> startswith s t)"

definition endswith :: "string \<Rightarrow> string \<Rightarrow> bool" where
  "endswith s t = (length t \<le> length s \<and> drop (length s - length t) s = t)"

fun str_includes :: "string \<Rightarrow> string \<Rightarrow> bool" where
  "str_includes [] t = (t = [])"
| "str_includes (d # s) t = (startswith (d # s) t \<or> str_includes s t)"

text \<open>
  Python's \<open>s[:-k]\<close> for a positive \<open>k\<close>: everything but the last \<open>k\<close> characters, and
  the empty string when \<open>s\<close> is shorter than \<open>k\<close>.
\<close>

definition slice_to_neg :: "string \<Rightarrow> nat \<Rightarrow> string" where
  "slice_to_neg s k = take (length s - k) s"

section \<open>The viewer-request function for SPA routing\<close>

text \<open>
  The JavaScript handler of \<open>SpaFunction\<close> reads \<open>request.uri\<close>, possibly appends to it
  and returns the request; every other field of the request is left as it is, which the
  extensible record expresses.
\<close>

record request =
  uri :: string

definition handler :: "'a request_scheme \<Rightarrow> 'a request_scheme" where
  "handler request =
     (if endswith (uri request) ''/'' then request\<lparr>uri := uri request @ ''index.html''\<rparr>
      else if \<not> str_includes (uri request) ''.'' then request\<lparr>uri := uri request @ ''/index.html''\<rparr>
      else request)"

text \<open>
  The rewriting rule in the words of the specification: the second case looks at the
  final segment of the path only, that is, at what follows the last \<open>/\<close>.
\<close>

definition final_segment :: "string \<Rightarrow> string" where
  "final_segment p = rev (takeWhile (\<lambda>c. c \<noteq> CHR ''/'') (rev p))"

definition dir_part :: "string \<Rightarrow> string" where
  "dir_part p = rev (dropWhile (\<lambda>c. c \<noteq> CHR ''/'') (rev p))"

definition spec_rewrite :: "string \<Rightarrow> string" where
  "spec_rewrite p =
     (if p \<noteq> [] \<and> last p = CHR ''/'' then p @ ''index.html''
      else if CHR ''.'' \<notin> set (final_segment p) then p @ ''/index.html''
      else p)"

section \<open>Record name of the alias records\<close>

text \<open>
  Lines 256 to 258 of the stack: the record name is the domain, with the zone name and
  the dot before it cut off when the domain ends with them.
\<close>

definition record_name :: "string \<Rightarrow> string \<Rightarrow> string" where
  "record_name domain hosted_zone_name =
     (if endswith domain (''.'' @ hosted_zone_name)
      then slice_to_neg domain (length hosted_zone_name + 1)
      else domain)"

section \<open>The stack: data\<close>

text \<open>
  The configuration is the dictionary loaded from the environment's JSON file. Its
  top-level entries are strings; \<open>cloudfront\<close> is a nested dictionary. \<open>d[k]\<close> raises
  \<open>KeyError\<close> on a missing key, \<open>d.get(k)\<close> returns \<open>None\<close>, and an optional string is
  true in a condition when it is there and not empty.

  The constructor can raise in three ways: \<open>KeyError\<close> for a missing key,
  \<open>AttributeError\<close> for a name that a class of the library does not have, and the error
  of a constructor of the library that refuses its arguments, \<open>LibraryError\<close> with the id
  of the construct.
\<close>

datatype py_error = KeyError string | AttributeError string | LibraryError string

record config =
  entries :: "string \<rightharpoonup> string"
  cloudfront :: "(string \<rightharpoonup> string) option"

definition subscript :: "(string \<rightharpoonup> 'v) \<Rightarrow> string \<Rightarrow> py_error + 'v" where
  "subscript d k = (case d k of None \<Rightarrow> Inl (KeyError k) | Some v \<Rightarrow> Inr v)"

definition truthy :: "string option \<Rightarrow> bool" where
  "truthy x = (case x of None \<Rightarrow> False | Some s \<Rightarrow> s \<noteq> [])"

text \<open>
  A construct is known to the others by its id in the stack. A value that is only known
  at deployment (the id of a distribution, the ARN of a web ACL) is a reference to an
  attribute of a construct; a string built from such values is a list of pieces.
\<close>

type_synonym cid = string

datatype piece = Lit string | Attr cid string

type_synonym token = "piece list"

datatype removal_policy = DESTROY | RETAIN
datatype block_public_access = BLOCK_ALL | BLOCK_ACLS
datatype bucket_encryption = S3_MANAGED | KMS_MANAGED | UNENCRYPTED
datatype http_method = GET | HEAD | PUT | POST | DELETE
datatype duration = Days int

record cors_rule =
  allowed_methods :: "http_method list"
  allowed_origins :: "string list"
  allowed_headers :: "string list"
  max_age :: int

record lifecycle_rule =
  rule_id :: string
  enabled :: bool
  noncurrent_version_expiration :: duration

record bucket_props =
  bucket_name :: string
  versioned :: bool
  public_read_access :: bool
  block_public_access :: block_public_access
  removal_policy :: removal_policy
  auto_delete_objects :: bool
  encryption :: bucket_encryption
  enforce_ssl :: bool
  cors :: "cors_rule list"
  lifecycle_rules :: "lifecycle_rule list"

text \<open>
  A keyword argument whose name is also the name of a local variable of the constructor
  (\<open>zone\<close>, \<open>certificate\<close>, \<open>distribution\<close>, \<open>region\<close>, \<open>hosted_zone_id\<close>) has the
  construct's name put before it as a field.
\<close>

record hosted_zone_props =
  zone_hosted_zone_id :: string
  zone_name :: string

record certificate_props =
  domain_name :: string
  hosted_zone :: cid
  cert_region :: string

datatype price_class = PRICE_CLASS_100 | PRICE_CLASS_200 | PRICE_CLASS_ALL
datatype viewer_protocol_policy = REDIRECT_TO_HTTPS | HTTPS_ONLY | ALLOW_ALL
datatype cache_policy = CACHING_OPTIMIZED | CACHING_DISABLED
datatype origin_request_policy = CORS_S3_ORIGIN | ALL_VIEWER
datatype response_headers_policy = SECURITY_HEADERS | CORS_ALLOW_ALL_ORIGINS
datatype function_event_type = VIEWER_REQUEST | VIEWER_RESPONSE

text \<open>\<open>S3Origin bucket identity\<close> and \<open>FunctionAssociation function event_type\<close>.\<close>

datatype origin = S3Origin cid cid
datatype function_association = FunctionAssociation cid function_event_type

record behavior_options =
  origin :: origin
  viewer_protocol_policy :: viewer_protocol_policy
  cache_policy :: cache_policy
  origin_request_policy :: origin_request_policy
  response_headers_policy :: response_headers_policy
  function_associations :: "function_association list"

record error_response =
  http_status :: int
  response_http_status :: int
  response_page_path :: string

record distribution_props =
  default_behavior :: behavior_options
  default_root_object :: string
  price_class :: price_class
  dist_certificate :: "cid option"
  domain_names :: "string list option"
  error_responses :: "error_response list"
  enable_logging :: bool
  web_acl_id :: "token option"

record visibility_config =
  cloud_watch_metrics_enabled :: bool
  metric_name :: string
  sampled_requests_enabled :: bool

text \<open>
  \<open>ManagedRuleGroupStatement name vendor_name\<close> and
  \<open>RateBasedStatement limit aggregate_key_type\<close>.
\<close>

datatype statement =
  ManagedRuleGroupStatement string string
| RateBasedStatement int string

datatype default_action = DefaultAllow | DefaultBlock
datatype override_action = OverrideNone | OverrideCount
datatype rule_action = RuleAllow | RuleBlock | RuleCount

record rule_property =
  rule_name :: string
  priority :: int
  statement :: statement
  override_action :: "override_action option"
  action :: "rule_action option"
  rule_visibility_config :: visibility_config

record web_acl_props =
  default_action :: default_action
  scope :: string
  acl_visibility_config :: visibility_config
  rules :: "rule_property list"

record alias_record_props =
  alias_zone :: cid
  alias_record_name :: string
  target :: cid

record deployment_props =
  sources :: "string list"
  destination_bucket :: cid
  deploy_distribution :: cid
  distribution_paths :: "string list"
  prune :: bool

text \<open>
  The constructs of the stack. \<open>OriginAccessIdentity\<close> carries its comment; the code of
  \<open>CloudFrontFunction\<close> is the JavaScript modelled by \<open>handler\<close>.
\<close>

datatype construct =
  Bucket bucket_props
| OriginAccessIdentity string
| CloudFrontFunction
| HostedZone hosted_zone_props
| DnsValidatedCertificate certificate_props
| Distribution distribution_props
| CfnWebACL web_acl_props
| ARecord alias_record_props
| AaaaRecord alias_record_props
| BucketDeployment deployment_props

record cfn_output =
  output_value :: token
  description :: string

text \<open>
  The state that the constructor of the stack builds up: the constructs in the order of
  their creation, the read grants (bucket, grantee), the tags and the outputs.
\<close>

record stack =
  constructs :: "(cid \<times> construct) list"
  grants :: "(cid \<times> cid) list"
  tags :: "(string \<times> string) list"
  outputs :: "(string \<times> cfn_output) list"

definition empty_stack :: stack where
  "empty_stack = \<lparr>constructs = [], grants = [], tags = [], outputs = []\<rparr>"

definition add_construct :: "cid \<Rightarrow> construct \<Rightarrow> stack \<Rightarrow> stack" where
  "add_construct i c s = s\<lparr>constructs := constructs s @ [(i, c)]\<rparr>"

definition grant_read :: "cid \<Rightarrow> cid \<Rightarrow> stack \<Rightarrow> stack" where
  "grant_read b g s = s\<lparr>grants := grants s @ [(b, g)]\<rparr>"

definition add_tag :: "string \<Rightarrow> string \<Rightarrow> stack \<Rightarrow> stack" where
  "add_tag k v s = s\<lparr>tags := tags s @ [(k, v)]\<rparr>"

definition CfnOutput :: "string \<Rightarrow> token \<Rightarrow> string \<Rightarrow> stack \<Rightarrow> stack" where
  "CfnOutput i v d s = s\<lparr>outputs := outputs s @ [(i, \<lparr>output_value = v, description = d\<rparr>)]\<rparr>"

text \<open>
  What the stack takes from the library \<open>aws_cdk\<close> and does not decide itself: which
  names the class \<open>aws_wafv2.CfnWebACL\<close> has, and which arguments the constructor of a
  construct takes (it raises on a bucket name that is not valid, on a domain name that
  is too long, on an asset directory that is not there). Both are parameters of the
  model.
\<close>

record cdk_library =
  has_class :: "string \<Rightarrow> bool"
  accepts :: "cid \<Rightarrow> construct \<Rightarrow> bool"

text \<open>
  The result of a statement that can raise is a sum: on the left the error, with the
  state as it was when the error was raised, on the right the value. \<open>and_then\<close> goes
  on with the value and passes an error through, as an exception leaves the constructor.
\<close>

definition and_then :: "'e + 'a \<Rightarrow> ('a \<Rightarrow> 'e + 'b) \<Rightarrow> 'e + 'b" where
  "and_then r f = (case r of Inl e \<Rightarrow> Inl e | Inr v \<Rightarrow> f v)"

definition raised_in :: "stack \<Rightarrow> py_error + 'a \<Rightarrow> py_error \<times> stack + 'a" where
  "raised_in s r = (case r of Inl e \<Rightarrow> Inl (e, s) | Inr v \<Rightarrow> Inr v)"

definition new_construct ::
  "cdk_library \<Rightarrow> cid \<Rightarrow> construct \<Rightarrow> stack \<Rightarrow> py_error \<times> stack + stack" where
  "new_construct lib i c s =
     (if accepts lib i c then Inr (add_construct i c s) else Inl (LibraryError i, s))"

section \<open>The stack: construction\<close>

text \<open>Lines 36 to 63: the bucket, whose retention depends on the environment.\<close>

definition website_bucket :: "string \<Rightarrow> string \<Rightarrow> bucket_props" where
  "website_bucket environment account =
     \<lparr>bucket_name = ''material-dashboard-'' @ environment @ ''-'' @ account,
      versioned = True,
      public_read_access = False,
      block_public_access = BLOCK_ALL,
      removal_policy = (if environment = ''dev'' then DESTROY else RETAIN),
      auto_delete_objects = (if environment = ''dev'' then True else False),
      encryption = S3_MANAGED,
      enforce_ssl = True,
      cors = [\<lparr>allowed_methods = [GET, HEAD], allowed_origins = [''*''],
               allowed_headers = [''*''], max_age = 3000\<rparr>],
      lifecycle_rules = [\<lparr>rule_id = ''DeleteOldVersions'', enabled = True,
        noncurrent_version_expiration = Days (if environment = ''dev'' then 30 else 90)\<rparr>]\<rparr>"

text \<open>
  Lines 97 to 115: the hosted zone and the certificate of the custom domain, built when
  the three optional entries are all true in the sense of Python. The value is the
  variables \<open>zone\<close> and \<open>certificate\<close> and the new state.
\<close>

definition custom_domain ::
  "cdk_library \<Rightarrow> string option \<Rightarrow> string option \<Rightarrow> string option \<Rightarrow> stack
     \<Rightarrow> py_error \<times> stack + cid option \<times> cid option \<times> stack" where
  "custom_domain lib domain hosted_zone_id hosted_zone_name s =
     (if truthy domain \<and> truthy hosted_zone_id \<and> truthy hosted_zone_name then
        and_then (new_construct lib ''HostedZone''
            (HostedZone \<lparr>zone_hosted_zone_id = the hosted_zone_id,
                         zone_name = the hosted_zone_name\<rparr>) s) (\<lambda>s1.
        and_then (new_construct lib ''SiteCertificate''
            (DnsValidatedCertificate
               \<lparr>domain_name = the domain, hosted_zone = ''HostedZone'',
                cert_region = ''us-east-1''\<rparr>) s1) (\<lambda>s2.
        Inr (Some ''HostedZone'', Some ''SiteCertificate'', s2)))
      else Inr (None, None, s))"

text \<open>Lines 118 to 124: the price class, read from the nested dictionary.\<close>

definition price_class_input :: "config \<Rightarrow> py_error + string" where
  "price_class_input config =
     (case cloudfront config of
        None \<Rightarrow> Inl (KeyError ''cloudfront'')
      | Some d \<Rightarrow> subscript d ''priceClass'')"

definition price_class_map :: "string \<rightharpoonup> price_class" where
  "price_class_map = map_of
     [(''PriceClass_100'', PRICE_CLASS_100),
      (''PriceClass_200'', PRICE_CLASS_200),
      (''PriceClass_All'', PRICE_CLASS_ALL)]"

definition price_class_value :: "string \<Rightarrow> price_class" where
  "price_class_value input =
     (case price_class_map input of None \<Rightarrow> PRICE_CLASS_100 | Some v \<Rightarrow> v)"

text \<open>
  Lines 127 to 164 and 214 to 251: the two calls of \<open>cloudfront.Distribution\<close> pass the
  same arguments, apart from \<open>web_acl_id\<close>, which only the second one gives.
\<close>

definition distribution_args ::
  "price_class \<Rightarrow> cid option \<Rightarrow> string option \<Rightarrow> token option \<Rightarrow> distribution_props" where
  "distribution_args price certificate domain acl =
     \<lparr>default_behavior =
        \<lparr>origin = S3Origin ''WebsiteBucket'' ''OriginAccessIdentity'',
         viewer_protocol_policy = REDIRECT_TO_HTTPS,
         cache_policy = CACHING_OPTIMIZED,
         origin_request_policy = CORS_S3_ORIGIN,
         response_headers_policy = SECURITY_HEADERS,
         function_associations = [FunctionAssociation ''SpaFunction'' VIEWER_REQUEST]\<rparr>,
      default_root_object = ''index.html'',
      price_class = price,
      dist_certificate = certificate,
      domain_names = (if certificate \<noteq> None then Some [the domain] else None),
      error_responses =
        [\<lparr>http_status = 403, response_http_status = 200, response_page_path = ''/index.html''\<rparr>,
         \<lparr>http_status = 404, response_http_status = 200, response_page_path = ''/index.html''\<rparr>],
      enable_logging = False,
      web_acl_id = acl\<rparr>"

text \<open>
  Lines 168 to 212: the arguments of \<open>wafv2.CfnWebACL\<close>. Python evaluates them before the
  call, and with them the names of classes of \<open>wafv2.CfnWebACL\<close> that they use, in the
  order of \<open>web_acl_classes\<close>; the first name that the class does not have raises
  \<open>AttributeError\<close>. \<open>NoneActionProperty\<close>, the eighth, is used at line 188 for the
  override action of the first rule. \<open>web_acl_value\<close> is the value of the arguments when
  every name is there.
\<close>

definition web_acl_classes :: "string list" where
  "web_acl_classes =
     [''DefaultActionProperty'', ''AllowActionProperty'', ''VisibilityConfigProperty'',
      ''RuleProperty'', ''StatementProperty'', ''ManagedRuleGroupStatementProperty'',
      ''OverrideActionProperty'', ''NoneActionProperty'', ''VisibilityConfigProperty'',
      ''RuleProperty'', ''StatementProperty'', ''RateBasedStatementProperty'',
      ''RuleActionProperty'', ''BlockActionProperty'', ''VisibilityConfigProperty'']"

definition web_acl_value :: web_acl_props where
  "web_acl_value =
     \<lparr>default_action = DefaultAllow,
      scope = ''CLOUDFRONT'',
      acl_visibility_config =
        \<lparr>cloud_watch_metrics_enabled = True, metric_name = ''WebACLMetric'',
         sampled_requests_enabled = True\<rparr>,
      rules =
        [\<lparr>rule_name = ''AWSManagedRulesCommonRuleSet'',
          priority = 1,
          statement = ManagedRuleGroupStatement ''AWSManagedRulesCommonRuleSet'' ''AWS'',
          override_action = Some OverrideNone,
          action = None,
          rule_visibility_config =
            \<lparr>cloud_watch_metrics_enabled = True,
             metric_name = ''AWSManagedRulesCommonRuleSetMetric'',
             sampled_requests_enabled = True\<rparr>\<rparr>,
         \<lparr>rule_name = ''RateLimit'',
          priority = 2,
          statement = RateBasedStatement 2000 ''IP'',
          override_action = None,
          action = Some RuleBlock,
          rule_visibility_config =
            \<lparr>cloud_watch_metrics_enabled = True, metric_name = ''RateLimitMetric'',
             sampled_requests_enabled = True\<rparr>\<rparr>]\<rparr>"

definition web_acl_args :: "cdk_library \<Rightarrow> py_error + web_acl_props" where
  "web_acl_args lib =
     (case find (\<lambda>n. \<not> has_class lib n) web_acl_classes of
        Some n \<Rightarrow> Inl (AttributeError n)
      | None \<Rightarrow> Inr web_acl_value)"

text \<open>
  Lines 166 to 251: in production the arguments of the web ACL are evaluated, the web
  ACL is created and then a second distribution, \<open>DistributionWithWAF\<close>, to which the
  variable \<open>distribution\<close> is bound from there on. The value is the variables \<open>web_acl\<close>
  (\<open>None\<close> when it was never assigned) and \<open>distribution\<close>, and the new state.
\<close>

definition production_waf ::
  "cdk_library \<Rightarrow> string \<Rightarrow> price_class \<Rightarrow> cid option \<Rightarrow> string option \<Rightarrow> cid \<Rightarrow> stack
     \<Rightarrow> py_error \<times> stack + cid option \<times> cid \<times> stack" where
  "production_waf lib environment price certificate domain distribution s =
     (if environment = ''prod'' then
        and_then (raised_in s (web_acl_args lib)) (\<lambda>args.
        and_then (new_construct lib ''WebACL'' (CfnWebACL args) s) (\<lambda>s1.
        and_then (new_construct lib ''DistributionWithWAF''
            (Distribution
               (distribution_args price certificate domain (Some [Attr ''WebACL'' ''attr_arn''])))
            s1) (\<lambda>s2.
        Inr (Some ''WebACL'', ''DistributionWithWAF'', s2))))
      else Inr (None, distribution, s))"

text \<open>Lines 254 to 272: the alias records of the custom domain.\<close>

definition alias_records ::
  "cdk_library \<Rightarrow> cid option \<Rightarrow> string option \<Rightarrow> string option \<Rightarrow> cid \<Rightarrow> stack
     \<Rightarrow> py_error \<times> stack + stack" where
  "alias_records lib zone domain hosted_zone_name distribution s =
     (if zone \<noteq> None \<and> truthy domain then
        (let name = record_name (the domain) (the hosted_zone_name);
             props = \<lparr>alias_zone = the zone, alias_record_name = name, target = distribution\<rparr>
         in and_then (new_construct lib ''AliasRecordA'' (ARecord props) s) (\<lambda>s1.
            new_construct lib ''AliasRecordAAAA'' (AaaaRecord props) s1))
      else Inr s)"

text \<open>Lines 293 to 327: the outputs.\<close>

definition stack_outputs :: "string \<Rightarrow> cid option \<Rightarrow> cid \<Rightarrow> stack \<Rightarrow> stack" where
  "stack_outputs environment web_acl distribution s =
     (let s1 = CfnOutput ''WebsiteBucketName'' [Attr ''WebsiteBucket'' ''bucket_name'']
                 ''S3 Bucket Name for Website Assets'' s;
          s2 = CfnOutput ''CloudFrontDistributionId'' [Attr distribution ''distribution_id'']
                 ''CloudFront Distribution ID'' s1;
          s3 = CfnOutput ''CloudFrontDomainName''
                 [Attr distribution ''distribution_domain_name'']
                 ''CloudFront Distribution Domain Name'' s2;
          s4 = CfnOutput ''WebsiteUrl''
                 [Lit ''https://'', Attr distribution ''distribution_domain_name'']
                 ''Website URL'' s3
      in if environment = ''prod'' \<and> web_acl \<noteq> None
         then CfnOutput ''WebACLId'' [Attr (the web_acl) ''attr_id''] ''WAF Web ACL ID'' s4
         else s4)"

text \<open>
  The constructor of \<open>MaterialDashboardStack\<close>, after the call of the constructor of
  \<open>Stack\<close>, which adds nothing to the state. An error leaves the constructor at once;
  the result then holds the error and the state built so far. The directory of the
  project comes from the path of the source file and is a parameter here.

  The variables \<open>zone\<close> and \<open>certificate\<close> are only set together, under the test of line
  102, so wherever the stages above read \<open>the domain\<close> or \<open>the hosted_zone_name\<close> behind
  a test of \<open>zone\<close> or \<open>certificate\<close>, the entry is there.
\<close>

definition MaterialDashboardStack ::
  "cdk_library \<Rightarrow> string \<Rightarrow> config \<Rightarrow> py_error \<times> stack + stack" where
  "MaterialDashboardStack lib project_root config =
     and_then (raised_in empty_stack (subscript (entries config) ''environment''))
       (\<lambda>environment.
     and_then (raised_in empty_stack (subscript (entries config) ''region'')) (\<lambda>region.
     and_then (raised_in empty_stack (subscript (entries config) ''account'')) (\<lambda>account.
     and_then (new_construct lib ''WebsiteBucket''
         (Bucket (website_bucket environment account)) empty_stack) (\<lambda>s1.
     and_then (new_construct lib ''OriginAccessIdentity''
         (OriginAccessIdentity (''OAI for '' @ environment @ '' environment'')) s1) (\<lambda>s2.
     and_then (new_construct lib ''SpaFunction'' CloudFrontFunction
         (grant_read ''WebsiteBucket'' ''OriginAccessIdentity'' s2)) (\<lambda>s4.
     (let domain = entries config ''domain'';
          hosted_zone_id = entries config ''hostedZoneId'';
          hosted_zone_name = entries config ''hostedZoneName''
      in
     and_then (custom_domain lib domain hosted_zone_id hosted_zone_name s4)
       (\<lambda>(zone, certificate, s5).
     and_then (raised_in s5 (price_class_input config)) (\<lambda>input.
     (let price = price_class_value input in
     and_then (new_construct lib ''Distribution''
         (Distribution (distribution_args price certificate domain None)) s5) (\<lambda>s6.
     and_then (production_waf lib environment price certificate domain ''Distribution'' s6)
       (\<lambda>(web_acl, distribution, s7).
     and_then (alias_records lib zone domain hosted_zone_name distribution s7) (\<lambda>s8.
     (let build_dir = project_root @ ''/build'' in
     and_then (new_construct lib ''DeployWebsite''
         (BucketDeployment
            \<lparr>sources = [build_dir], destination_bucket = ''WebsiteBucket'',
             deploy_distribution = distribution, distribution_paths = [''/*''],
             prune = False\<rparr>) s8) (\<lambda>s9.
     (let s10 = add_tag ''ManagedBy'' ''cdk''
                  (add_tag ''Project'' ''material-dashboard-react''
                     (add_tag ''Environment'' environment s9))
      in Inr (stack_outputs environment web_acl distribution s10)))))))))))))))))"

text \<open>Reading the state: the constructs of one kind, and the ids a construct refers to.\<close>

fun is_distribution :: "construct \<Rightarrow> bool" where
  "is_distribution (Distribution d) = True"
| "is_distribution c = False"

fun is_web_acl :: "construct \<Rightarrow> bool" where
  "is_web_acl (CfnWebACL w) = True"
| "is_web_acl c = False"

fun is_certificate :: "construct \<Rightarrow> bool" where
  "is_certificate (DnsValidatedCertificate c) = True"
| "is_certificate c = False"

fun is_hosted_zone :: "construct \<Rightarrow> bool" where
  "is_hosted_zone (HostedZone z) = True"
| "is_hosted_zone c = False"

fun is_alias_record :: "construct \<Rightarrow> bool" where
  "is_alias_record (ARecord r) = True"
| "is_alias_record (AaaaRecord r) = True"
| "is_alias_record c = False"

fun is_bucket :: "construct \<Rightarrow> bool" where
  "is_bucket (Bucket b) = True"
| "is_bucket c = False"

definition of_kind :: "(construct \<Rightarrow> bool) \<Rightarrow> stack \<Rightarrow> (cid \<times> construct) list" where
  "of_kind k s = filter (\<lambda>(i, c). k c) (constructs s)"

fun token_refs :: "token \<Rightarrow> cid list" where
  "token_refs [] = []"
| "token_refs (Lit t # ps) = token_refs ps"
| "token_refs (Attr i a # ps) = i # token_refs ps"

fun references :: "construct \<Rightarrow> cid list" where
  "references (Bucket b) = []"
| "references (OriginAccessIdentity c) = []"
| "references CloudFrontFunction = []"
| "references (HostedZone z) = []"
| "references (DnsValidatedCertificate c) = [hosted_zone c]"
| "references (Distribution d) =
     (case origin (default_behavior d) of S3Origin b i \<Rightarrow> [b, i])
     @ map (\<lambda>fa. case fa of FunctionAssociation f e \<Rightarrow> f)
         (function_associations (default_behavior d))
     @ (case dist_certificate d of None \<Rightarrow> [] | Some c \<Rightarrow> [c])
     @ (case web_acl_id d of None \<Rightarrow> [] | Some t \<Rightarrow> token_refs t)"
| "references (CfnWebACL w) = []"
| "references (ARecord r) = [alias_zone r, target r]"
| "references (AaaaRecord r) = [alias_zone r, target r]"
| "references (BucketDeployment d) = [destination_bucket d, deploy_distribution d]"

text \<open>
  Names for two conditions of the constructor: the test of line 102, under which the
  hosted zone and the certificate are built, and the value of the variable
  \<open>distribution\<close> from line 252 on.
\<close>

definition custom_domain_enabled :: "config \<Rightarrow> bool" where
  "custom_domain_enabled config \<longleftrightarrow>
     truthy (entries config ''domain'') \<and> truthy (entries config ''hostedZoneId'')
     \<and> truthy (entries config ''hostedZoneName'')"

definition current_distribution :: "string \<Rightarrow> cid" where
  "current_distribution environment =
     (if environment = ''prod'' then ''DistributionWithWAF'' else ''Distribution'')"

text \<open>
  What the constructor is run on below. The library has the classes of
  \<open>aws_wafv2.CfnWebACL\<close> that the stack names, with the exception of
  \<open>NoneActionProperty\<close>, which \<open>aws_cdk\<close> does not define, and its constructors take the
  arguments that these configurations give them. The configurations are the profiles
  \<open>dev\<close> and \<open>prod\<close>, the profile \<open>dev\<close> with a \<open>domain\<close> and no hosted zone, the
  profile \<open>dev\<close> with a custom domain, and a profile for an environment that is neither
  of the two.
\<close>

definition cdk :: cdk_library where
  "cdk =
     \<lparr>has_class = (\<lambda>n. n \<in> set
        [''DefaultActionProperty'', ''AllowActionProperty'', ''BlockActionProperty'',
         ''VisibilityConfigProperty'', ''RuleProperty'', ''StatementProperty'',
         ''ManagedRuleGroupStatementProperty'', ''RateBasedStatementProperty'',
         ''OverrideActionProperty'', ''RuleActionProperty'']),
      accepts = (\<lambda>i c. True)\<rparr>"

definition dev_profile :: config where
  "dev_profile =
     \<lparr>entries = [''environment'' \<mapsto> ''dev'', ''region'' \<mapsto> ''us-east-1'',
                 ''account'' \<mapsto> ''123456789012''],
      cloudfront = Some [''priceClass'' \<mapsto> ''PriceClass_100'']\<rparr>"

definition dev_partial_profile :: config where
  "dev_partial_profile =
     dev_profile\<lparr>entries := (entries dev_profile)(''domain'' \<mapsto> ''dev.example.com'')\<rparr>"

definition dev_domain_profile :: config where
  "dev_domain_profile =
     \<lparr>entries = [''environment'' \<mapsto> ''dev'', ''region'' \<mapsto> ''eu-west-1'',
                 ''account'' \<mapsto> ''123456789012'', ''domain'' \<mapsto> ''dev.example.com'',
                 ''hostedZoneId'' \<mapsto> ''Z123'', ''hostedZoneName'' \<mapsto> ''example.com''],
      cloudfront = Some [''priceClass'' \<mapsto> ''PriceClass_200'']\<rparr>"

definition staging_profile :: config where
  "staging_profile =
     \<lparr>entries = [''environment'' \<mapsto> ''staging'', ''region'' \<mapsto> ''us-east-1'',
                 ''account'' \<mapsto> ''123456789012''],
      cloudfront = Some [''priceClass'' \<mapsto> ''PriceClass_100'']\<rparr>"

definition prod_profile :: config where
  "prod_profile =
     \<lparr>entries = [''environment'' \<mapsto> ''prod'', ''region'' \<mapsto> ''eu-west-1'',
                 ''account'' \<mapsto> ''123456789012'', ''domain'' \<mapsto> ''app.example.com'',
                 ''hostedZoneId'' \<mapsto> ''Z123'', ''hostedZoneName'' \<mapsto> ''example.com''],
      cloudfront = Some [''priceClass'' \<mapsto> ''PriceClass_All'']\<rparr>"

section \<open>Facts about the string primitives\<close>

lemma startswith_prefix: "startswith s t \<longleftrightarrow> prefix t s"
  by (induction s t rule: startswith.induct) auto

lemma endswith_suffix: "endswith s t \<longleftrightarrow> suffix t s"
proof
  assume "endswith s t"
  then have "s = take (length s - length t) s @ t"
    by (metis append_take_drop_id endswith_def)
  then show "suffix t s"
    by (rule suffixI)
next
  assume "suffix t s"
  then obtain zs where "s = zs @ t"
    by (rule suffixE)
  then show "endswith s t"
    by (simp add: endswith_def)
qed

lemma endswith_append: "endswith (p @ t) t"
  by (simp add: endswith_def)

lemma endswith_slash: "endswith s ''/'' \<longleftrightarrow> s \<noteq> [] \<and> last s = CHR ''/''"
proof (cases s rule: rev_cases)
  case Nil
  then show ?thesis by (simp add: endswith_def)
next
  case (snoc ys y)
  then show ?thesis by (auto simp: endswith_def)
qed

lemma startswith_single: "startswith s [c] \<longleftrightarrow> s \<noteq> [] \<and> hd s = c"
  by (cases s) auto

lemma includes_single: "str_includes s [c] \<longleftrightarrow> c \<in> set s"
  by (induction s) (auto simp: startswith_single)

lemma includes_sublist: "str_includes s t \<longleftrightarrow> sublist t s"
proof (induction s)
  case Nil
  then show ?case by simp
next
  case (Cons d s)
  then show ?case
    by (simp add: startswith_prefix sublist_Cons_right del: startswith.simps)
qed

lemma slice_to_neg_append: "slice_to_neg (p @ t) (length t) = p"
  by (simp add: slice_to_neg_def)

lemma final_segment_Nil: "final_segment [] = []"
  by (simp add: final_segment_def)

lemma split_path: "dir_part p @ final_segment p = p"
  unfolding dir_part_def final_segment_def
  by (metis rev_append rev_rev_ident takeWhile_dropWhile_id)

lemma dot_in_path:
  "CHR ''.'' \<in> set p \<longleftrightarrow> CHR ''.'' \<in> set (dir_part p) \<or> CHR ''.'' \<in> set (final_segment p)"
  by (metis Un_iff set_append split_path)

section \<open>Facts about the constructor\<close>

lemma and_then_Inr_iff: "and_then r f = Inr y \<longleftrightarrow> (\<exists>v. r = Inr v \<and> f v = Inr y)"
  by (cases r) (simp_all add: and_then_def)

lemma raised_in_Inr_iff: "raised_in s r = Inr v \<longleftrightarrow> r = Inr v"
  by (cases r) (simp_all add: raised_in_def)

lemma subscript_Inr_iff: "subscript d k = Inr v \<longleftrightarrow> d k = Some v"
  by (simp add: subscript_def split: option.split)

lemma new_construct_Inr_iff:
  "new_construct lib i c s = Inr s' \<longleftrightarrow> accepts lib i c \<and> s' = add_construct i c s"
  by (auto simp: new_construct_def)

lemmas success_iffs = and_then_Inr_iff raised_in_Inr_iff subscript_Inr_iff new_construct_Inr_iff

lemma custom_domain_Inr:
  assumes "custom_domain lib domain hosted_zone_id hosted_zone_name s = Inr (zone, certificate, s')"
  shows "zone = (if truthy domain \<and> truthy hosted_zone_id \<and> truthy hosted_zone_name
                 then Some ''HostedZone'' else None)"
    and "certificate = (if truthy domain \<and> truthy hosted_zone_id \<and> truthy hosted_zone_name
                 then Some ''SiteCertificate'' else None)"
    and "constructs s' = constructs s @
      (if truthy domain \<and> truthy hosted_zone_id \<and> truthy hosted_zone_name then
         [(''HostedZone'', HostedZone \<lparr>zone_hosted_zone_id = the hosted_zone_id,
              zone_name = the hosted_zone_name\<rparr>),
          (''SiteCertificate'', DnsValidatedCertificate
             \<lparr>domain_name = the domain, hosted_zone = ''HostedZone'',
              cert_region = ''us-east-1''\<rparr>)]
       else [])"
    and "outputs s' = outputs s" and "tags s' = tags s" and "grants s' = grants s"
  using assms
  by (auto simp: custom_domain_def success_iffs add_construct_def split: if_splits)

lemma production_waf_Inr:
  assumes "production_waf lib environment price certificate domain distribution s =
      Inr (web_acl, distribution', s')"
  shows "web_acl = (if environment = ''prod'' then Some ''WebACL'' else None)"
    and "distribution' = (if environment = ''prod'' then ''DistributionWithWAF'' else distribution)"
    and "constructs s' = constructs s @
      (if environment = ''prod'' then
         [(''WebACL'', CfnWebACL web_acl_value),
          (''DistributionWithWAF'', Distribution
             (distribution_args price certificate domain (Some [Attr ''WebACL'' ''attr_arn''])))]
       else [])"
    and "outputs s' = outputs s" and "tags s' = tags s" and "grants s' = grants s"
    and "environment = ''prod'' \<Longrightarrow> web_acl_args lib = Inr web_acl_value"
  using assms
  by (auto simp: production_waf_def success_iffs add_construct_def web_acl_args_def
      split: if_splits option.splits)

lemma alias_records_Inr:
  assumes "alias_records lib zone domain hosted_zone_name distribution s = Inr s'"
  shows "constructs s' = constructs s @
      (if zone \<noteq> None \<and> truthy domain then
         [(''AliasRecordA'', ARecord \<lparr>alias_zone = the zone,
             alias_record_name = record_name (the domain) (the hosted_zone_name),
             target = distribution\<rparr>),
          (''AliasRecordAAAA'', AaaaRecord \<lparr>alias_zone = the zone,
             alias_record_name = record_name (the domain) (the hosted_zone_name),
             target = distribution\<rparr>)]
       else [])"
    and "outputs s' = outputs s" and "tags s' = tags s" and "grants s' = grants s"
  using assms
  by (auto simp: alias_records_def success_iffs add_construct_def Let_def split: if_splits)


lemma build_run:
  assumes "MaterialDashboardStack lib root config = Inr s"
  obtains environment region account input zone certificate s5 web_acl distribution s7 s8 where
    "entries config ''environment'' = Some environment"
    "entries config ''region'' = Some region"
    "entries config ''account'' = Some account"
    "price_class_input config = Inr input"
    "custom_domain lib (entries config ''domain'') (entries config ''hostedZoneId'')
       (entries config ''hostedZoneName'')
       (add_construct ''SpaFunction'' CloudFrontFunction
          (grant_read ''WebsiteBucket'' ''OriginAccessIdentity''
             (add_construct ''OriginAccessIdentity''
                (OriginAccessIdentity (''OAI for '' @ environment @ '' environment''))
                (add_construct ''WebsiteBucket'' (Bucket (website_bucket environment account))
                   empty_stack)))) = Inr (zone, certificate, s5)"
    "production_waf lib environment (price_class_value input) certificate
       (entries config ''domain'') ''Distribution''
       (add_construct ''Distribution''
          (Distribution (distribution_args (price_class_value input) certificate
             (entries config ''domain'') None)) s5) = Inr (web_acl, distribution, s7)"
    "alias_records lib zone (entries config ''domain'') (entries config ''hostedZoneName'')
       distribution s7 = Inr s8"
    "s = stack_outputs environment web_acl distribution
       (add_tag ''ManagedBy'' ''cdk''
          (add_tag ''Project'' ''material-dashboard-react''
             (add_tag ''Environment'' environment
                (add_construct ''DeployWebsite''
                   (BucketDeployment
                      \<lparr>sources = [root @ ''/build''], destination_bucket = ''WebsiteBucket'',
                       deploy_distribution = distribution, distribution_paths = [''/*''],
                       prune = False\<rparr>) s8))))"
  using assms
  by (auto simp: MaterialDashboardStack_def success_iffs Let_def)

lemma build_inputs:
  assumes "MaterialDashboardStack lib root config = Inr s"
  obtains environment account input where
    "entries config ''environment'' = Some environment"
    "entries config ''account'' = Some account"
    "price_class_input config = Inr input"
  using assms by (rule build_run)

lemma build_constructs:
  assumes "MaterialDashboardStack lib root config = Inr s"
    and "entries config ''environment'' = Some environment"
    and "entries config ''account'' = Some account"
    and "price_class_input config = Inr input"
  shows "constructs s =
    [(''WebsiteBucket'', Bucket (website_bucket environment account)),
     (''OriginAccessIdentity'', OriginAccessIdentity (''OAI for '' @ environment @ '' environment'')),
     (''SpaFunction'', CloudFrontFunction)]
    @ (if custom_domain_enabled config then
         [(''HostedZone'', HostedZone \<lparr>zone_hosted_zone_id = the (entries config ''hostedZoneId''),
              zone_name = the (entries config ''hostedZoneName'')\<rparr>),
          (''SiteCertificate'', DnsValidatedCertificate
             \<lparr>domain_name = the (entries config ''domain''), hosted_zone = ''HostedZone'',
              cert_region = ''us-east-1''\<rparr>)]
       else [])
    @ [(''Distribution'', Distribution (distribution_args (price_class_value input)
          (if custom_domain_enabled config then Some ''SiteCertificate'' else None)
          (entries config ''domain'') None))]
    @ (if environment = ''prod'' then
         [(''WebACL'', CfnWebACL web_acl_value),
          (''DistributionWithWAF'', Distribution (distribution_args (price_class_value input)
             (if custom_domain_enabled config then Some ''SiteCertificate'' else None)
             (entries config ''domain'') (Some [Attr ''WebACL'' ''attr_arn''])))]
       else [])
    @ (if custom_domain_enabled config then
         [(''AliasRecordA'', ARecord \<lparr>alias_zone = ''HostedZone'',
             alias_record_name = record_name (the (entries config ''domain''))
               (the (entries config ''hostedZoneName'')),
             target = current_distribution environment\<rparr>),
          (''AliasRecordAAAA'', AaaaRecord \<lparr>alias_zone = ''HostedZone'',
             alias_record_name = record_name (the (entries config ''domain''))
               (the (entries config ''hostedZoneName'')),
             target = current_distribution environment\<rparr>)]
       else [])
    @ [(''DeployWebsite'', BucketDeployment
          \<lparr>sources = [root @ ''/build''], destination_bucket = ''WebsiteBucket'',
           deploy_distribution = current_distribution environment,
           distribution_paths = [''/*''], prune = False\<rparr>)]"
proof -
  from assms(1) obtain e r a i zone certificate s5 web_acl distribution s7 s8 where
    k: "entries config ''environment'' = Some e" "entries config ''account'' = Some a"
      "price_class_input config = Inr i"
    and cd: "custom_domain lib (entries config ''domain'') (entries config ''hostedZoneId'')
       (entries config ''hostedZoneName'')
       (add_construct ''SpaFunction'' CloudFrontFunction
          (grant_read ''WebsiteBucket'' ''OriginAccessIdentity''
             (add_construct ''OriginAccessIdentity''
                (OriginAccessIdentity (''OAI for '' @ e @ '' environment''))
                (add_construct ''WebsiteBucket'' (Bucket (website_bucket e a))
                   empty_stack)))) = Inr (zone, certificate, s5)"
    and pw: "production_waf lib e (price_class_value i) certificate
       (entries config ''domain'') ''Distribution''
       (add_construct ''Distribution''
          (Distribution (distribution_args (price_class_value i) certificate
             (entries config ''domain'') None)) s5) = Inr (web_acl, distribution, s7)"
    and ar: "alias_records lib zone (entries config ''domain'') (entries config ''hostedZoneName'')
       distribution s7 = Inr s8"
    and s: "s = stack_outputs e web_acl distribution
       (add_tag ''ManagedBy'' ''cdk''
          (add_tag ''Project'' ''material-dashboard-react''
             (add_tag ''Environment'' e
                (add_construct ''DeployWebsite''
                   (BucketDeployment
                      \<lparr>sources = [root @ ''/build''], destination_bucket = ''WebsiteBucket'',
                       deploy_distribution = distribution, distribution_paths = [''/*''],
                       prune = False\<rparr>) s8))))"
    by (rule build_run)
  from k assms have eq: "e = environment" "a = account" "i = input"
    by simp_all
  have c: "constructs s = constructs s8 @ [(''DeployWebsite'', BucketDeployment
      \<lparr>sources = [root @ ''/build''], destination_bucket = ''WebsiteBucket'',
       deploy_distribution = distribution, distribution_paths = [''/*''], prune = False\<rparr>)]"
    by (simp add: s stack_outputs_def CfnOutput_def add_tag_def add_construct_def Let_def)
  have en: "(truthy (entries config ''domain'') \<and> truthy (entries config ''hostedZoneId'')
      \<and> truthy (entries config ''hostedZoneName'')) = custom_domain_enabled config"
    by (simp add: custom_domain_enabled_def)
  note zone = custom_domain_Inr(1) [OF cd, unfolded en]
  note cert = custom_domain_Inr(2) [OF cd, unfolded en]
  have c5: "constructs s5 =
      [(''WebsiteBucket'', Bucket (website_bucket environment account)),
       (''OriginAccessIdentity'',
        OriginAccessIdentity (''OAI for '' @ environment @ '' environment'')),
       (''SpaFunction'', CloudFrontFunction)]
      @ (if custom_domain_enabled config then
           [(''HostedZone'', HostedZone
               \<lparr>zone_hosted_zone_id = the (entries config ''hostedZoneId''),
                zone_name = the (entries config ''hostedZoneName'')\<rparr>),
            (''SiteCertificate'', DnsValidatedCertificate
               \<lparr>domain_name = the (entries config ''domain''), hosted_zone = ''HostedZone'',
                cert_region = ''us-east-1''\<rparr>)]
         else [])"
    using custom_domain_Inr(3) [OF cd, unfolded en]
    by (simp add: eq add_construct_def grant_read_def empty_stack_def)
  have dist: "distribution = current_distribution environment"
    using production_waf_Inr(2) [OF pw] by (simp add: eq current_distribution_def)
  have c7: "constructs s7 = constructs s5
      @ [(''Distribution'', Distribution (distribution_args (price_class_value input)
            certificate (entries config ''domain'') None))]
      @ (if environment = ''prod'' then
           [(''WebACL'', CfnWebACL web_acl_value),
            (''DistributionWithWAF'', Distribution (distribution_args (price_class_value input)
               certificate (entries config ''domain'') (Some [Attr ''WebACL'' ''attr_arn''])))]
         else [])"
    using production_waf_Inr(3) [OF pw] by (simp add: eq add_construct_def)
  have z: "(zone \<noteq> None \<and> truthy (entries config ''domain'')) = custom_domain_enabled config"
    by (auto simp: zone custom_domain_enabled_def)
  have c8: "constructs s8 = constructs s7
      @ (if custom_domain_enabled config then
           [(''AliasRecordA'', ARecord \<lparr>alias_zone = ''HostedZone'',
               alias_record_name = record_name (the (entries config ''domain''))
                 (the (entries config ''hostedZoneName'')),
               target = current_distribution environment\<rparr>),
            (''AliasRecordAAAA'', AaaaRecord \<lparr>alias_zone = ''HostedZone'',
               alias_record_name = record_name (the (entries config ''domain''))
                 (the (entries config ''hostedZoneName'')),
               target = current_distribution environment\<rparr>)]
         else [])"
    using alias_records_Inr(1) [OF ar, unfolded z] by (simp add: zone dist)
  show ?thesis
    by (simp add: c c8 c7 c5 cert dist)
qed

lemma and_then_Inr: "and_then (Inr v) f = f v"
  by (simp add: and_then_def)

lemma and_then_Inl: "and_then (Inl e) f = Inl e"
  by (simp add: and_then_def)

lemma no_environment:
  "entries config ''environment'' = None \<Longrightarrow>
   MaterialDashboardStack lib root config = Inl (KeyError ''environment'', empty_stack)"
  by (simp add: MaterialDashboardStack_def subscript_def raised_in_def and_then_Inl)

lemma no_region:
  "entries config ''environment'' = Some e \<Longrightarrow> entries config ''region'' = None \<Longrightarrow>
   MaterialDashboardStack lib root config = Inl (KeyError ''region'', empty_stack)"
  by (simp add: MaterialDashboardStack_def subscript_def raised_in_def and_then_Inl and_then_Inr)

lemma no_account:
  "entries config ''environment'' = Some e \<Longrightarrow> entries config ''region'' = Some r \<Longrightarrow>
   entries config ''account'' = None \<Longrightarrow>
   MaterialDashboardStack lib root config = Inl (KeyError ''account'', empty_stack)"
  by (simp add: MaterialDashboardStack_def subscript_def raised_in_def and_then_Inl and_then_Inr)

lemmas run_defs = MaterialDashboardStack_def subscript_def price_class_input_def
  price_class_value_def price_class_map_def truthy_def and_then_def raised_in_def
  new_construct_def custom_domain_def production_waf_def alias_records_def web_acl_args_def
  web_acl_classes_def stack_outputs_def empty_stack_def add_construct_def grant_read_def
  add_tag_def CfnOutput_def cdk_def Let_def of_kind_def

lemma dev_profile_builds:
  "MaterialDashboardStack cdk ''/repo'' dev_profile =
     Inr (projr (MaterialDashboardStack cdk ''/repo'' dev_profile))"
proof -
  have "\<not> isl (MaterialDashboardStack cdk ''/repo'' dev_profile)"
    by (simp add: run_defs dev_profile_def)
  then show ?thesis
    by simp
qed

lemma dev_partial_profile_builds:
  "MaterialDashboardStack cdk ''/repo'' dev_partial_profile =
     Inr (projr (MaterialDashboardStack cdk ''/repo'' dev_partial_profile))"
proof -
  have "\<not> isl (MaterialDashboardStack cdk ''/repo'' dev_partial_profile)"
    by (simp add: run_defs dev_partial_profile_def dev_profile_def)
  then show ?thesis
    by simp
qed

lemma dev_partial_profile_entries:
  "entries dev_partial_profile ''domain'' = Some ''dev.example.com''"
  "entries dev_partial_profile ''hostedZoneId'' = None"
  "entries dev_partial_profile ''hostedZoneName'' = None"
  "\<not> custom_domain_enabled dev_partial_profile"
  by (simp_all add: dev_partial_profile_def dev_profile_def custom_domain_enabled_def truthy_def)

lemma dev_domain_profile_builds:
  "MaterialDashboardStack cdk ''/repo'' dev_domain_profile =
     Inr (projr (MaterialDashboardStack cdk ''/repo'' dev_domain_profile))"
proof -
  have "\<not> isl (MaterialDashboardStack cdk ''/repo'' dev_domain_profile)"
    by (simp add: run_defs dev_domain_profile_def)
  then show ?thesis
    by simp
qed

lemma staging_profile_builds:
  "MaterialDashboardStack cdk ''/repo'' staging_profile =
     Inr (projr (MaterialDashboardStack cdk ''/repo'' staging_profile))"
proof -
  have "\<not> isl (MaterialDashboardStack cdk ''/repo'' staging_profile)"
    by (simp add: run_defs staging_profile_def)
  then show ?thesis
    by simp
qed

lemma dev_profile_entries:
  "entries dev_profile ''environment'' = Some ''dev''"
  "entries dev_profile ''account'' = Some ''123456789012''"
  "\<not> custom_domain_enabled dev_profile"
  by (simp_all add: dev_profile_def custom_domain_enabled_def truthy_def)

lemma dev_domain_profile_entries:
  "entries dev_domain_profile ''environment'' = Some ''dev''"
  "entries dev_domain_profile ''region'' = Some ''eu-west-1''"
  "entries dev_domain_profile ''domain'' = Some ''dev.example.com''"
  "entries dev_domain_profile ''hostedZoneId'' = Some ''Z123''"
  "entries dev_domain_profile ''hostedZoneName'' = Some ''example.com''"
  "custom_domain_enabled dev_domain_profile"
  by (simp_all add: dev_domain_profile_def custom_domain_enabled_def truthy_def)

lemma staging_profile_entries:
  "entries staging_profile ''environment'' = Some ''staging''"
  "entries staging_profile ''account'' = Some ''123456789012''"
  by (simp_all add: staging_profile_def)

section \<open>The distribution and its web ACL in production\<close>

text \<open>
  C2 asks for exactly one distribution in every stack, built with the web ACL already
  resolved and, in production, with the web ACL attached to it. Run on the \<open>prod\<close>
  profile the constructor builds \<open>Distribution\<close> with no web ACL first and then raises
  \<open>AttributeError\<close> at line 188, where the arguments of the web ACL name
  \<open>NoneActionProperty\<close>: the one distribution that exists refers to no web ACL, and no
  stack is returned.
\<close>

theorem production_stops_after_first_distribution:
  "map_sum (\<lambda>(e, s). (e, map (\<lambda>(i, c). (i, references c)) (of_kind is_distribution s)))
     (\<lambda>s. map fst (constructs s))
     (MaterialDashboardStack cdk ''/repo'' prod_profile) =
   Inl (AttributeError ''NoneActionProperty'',
        [(''Distribution'',
          [''WebsiteBucket'', ''OriginAccessIdentity'', ''SpaFunction'', ''SiteCertificate''])])"
  by (simp add: run_defs prod_profile_def distribution_args_def)

section \<open>Missing entries of the configuration\<close>

text \<open>
  C3, as the specification words it, has construction fail when only part of the three
  entries \<open>domain\<close>, \<open>hostedZoneId\<close>, \<open>hostedZoneName\<close> is there. The \<open>dev\<close> profile
  with a \<open>domain\<close> and neither of the other two builds without an error: the five
  constructs of a stack with no custom domain.
\<close>

theorem partial_custom_domain_counterexample:
  "entries dev_partial_profile ''domain'' = Some ''dev.example.com''
   \<and> entries dev_partial_profile ''hostedZoneId'' = None
   \<and> entries dev_partial_profile ''hostedZoneName'' = None
   \<and> map_sum fst (\<lambda>s. map fst (constructs s))
       (MaterialDashboardStack cdk ''/repo'' dev_partial_profile) =
     Inr [''WebsiteBucket'', ''OriginAccessIdentity'', ''SpaFunction'', ''Distribution'',
          ''DeployWebsite'']"
  by (simp add: run_defs dev_partial_profile_def dev_profile_def)

text \<open>
  C3, amended: when \<open>environment\<close>, \<open>region\<close> or \<open>account\<close> is missing, the constructor
  raises the \<open>KeyError\<close> of the first of them that is missing, before any construct or
  output exists. A configuration in which the three entries of the custom domain are
  not all there and non-empty is not refused for that: when its stack builds, the stack
  has no hosted zone, no certificate and no alias record.
\<close>

theorem missing_mandatory_key_raises:
  "(entries config ''environment'' = None \<longrightarrow>
      MaterialDashboardStack lib root config = Inl (KeyError ''environment'', empty_stack))
   \<and> (entries config ''environment'' \<noteq> None \<and> entries config ''region'' = None \<longrightarrow>
      MaterialDashboardStack lib root config = Inl (KeyError ''region'', empty_stack))
   \<and> (entries config ''environment'' \<noteq> None \<and> entries config ''region'' \<noteq> None
      \<and> entries config ''account'' = None \<longrightarrow>
      MaterialDashboardStack lib root config = Inl (KeyError ''account'', empty_stack))
   \<and> constructs empty_stack = [] \<and> outputs empty_stack = []
   \<and> (\<not> custom_domain_enabled config \<and> MaterialDashboardStack lib root config = Inr s \<longrightarrow>
        of_kind is_hosted_zone s = [] \<and> of_kind is_certificate s = []
        \<and> of_kind is_alias_record s = [])"
proof -
  have partial: "of_kind is_hosted_zone s = [] \<and> of_kind is_certificate s = []
      \<and> of_kind is_alias_record s = []"
    if off: "\<not> custom_domain_enabled config"
      and s: "MaterialDashboardStack lib root config = Inr s"
  proof -
    from s obtain environment account input where
      "entries config ''environment'' = Some environment"
      "entries config ''account'' = Some account"
      "price_class_input config = Inr input"
      by (rule build_inputs)
    with s have "constructs s =
      [(''WebsiteBucket'', Bucket (website_bucket environment account)),
       (''OriginAccessIdentity'',
        OriginAccessIdentity (''OAI for '' @ environment @ '' environment'')),
       (''SpaFunction'', CloudFrontFunction)]
      @ [(''Distribution'', Distribution
            (distribution_args (price_class_value input) None (entries config ''domain'') None))]
      @ (if environment = ''prod'' then
           [(''WebACL'', CfnWebACL web_acl_value),
            (''DistributionWithWAF'', Distribution
               (distribution_args (price_class_value input) None (entries config ''domain'')
                  (Some [Attr ''WebACL'' ''attr_arn''])))]
         else [])
      @ [(''DeployWebsite'', BucketDeployment
            \<lparr>sources = [root @ ''/build''], destination_bucket = ''WebsiteBucket'',
             deploy_distribution = current_distribution environment,
             distribution_paths = [''/*''], prune = False\<rparr>)]"
      using off by (simp add: build_constructs)
    then show ?thesis
      by (simp add: of_kind_def)
  qed
  show ?thesis
    using partial
    by (auto simp: no_environment no_region no_account empty_stack_def)
qed

theorem missing_mandatory_key_raises_witness:
  "MaterialDashboardStack cdk ''/repo'' \<lparr>entries = Map.empty, cloudfront = None\<rparr> =
     Inl (KeyError ''environment'', empty_stack)
   \<and> MaterialDashboardStack cdk ''/repo''
       \<lparr>entries = [''environment'' \<mapsto> ''dev''], cloudfront = None\<rparr> =
     Inl (KeyError ''region'', empty_stack)
   \<and> MaterialDashboardStack cdk ''/repo''
       \<lparr>entries = [''environment'' \<mapsto> ''dev'', ''region'' \<mapsto> ''us-east-1''],
        cloudfront = None\<rparr> =
     Inl (KeyError ''account'', empty_stack)
   \<and> \<not> custom_domain_enabled dev_partial_profile
   \<and> of_kind is_certificate (projr (MaterialDashboardStack cdk ''/repo'' dev_partial_profile)) = []
   \<and> of_kind is_alias_record (projr (MaterialDashboardStack cdk ''/repo'' dev_partial_profile)) = []"
proof -
  have a: "MaterialDashboardStack cdk ''/repo'' \<lparr>entries = Map.empty, cloudfront = None\<rparr> =
      Inl (KeyError ''environment'', empty_stack)"
    using missing_mandatory_key_raises
      [where config = "\<lparr>entries = Map.empty, cloudfront = None\<rparr>" and root = "''/repo''"
        and lib = cdk]
    by simp
  have b: "MaterialDashboardStack cdk ''/repo''
       \<lparr>entries = [''environment'' \<mapsto> ''dev''], cloudfront = None\<rparr> =
      Inl (KeyError ''region'', empty_stack)"
    using missing_mandatory_key_raises
      [where config = "\<lparr>entries = [''environment'' \<mapsto> ''dev''], cloudfront = None\<rparr>"
        and root = "''/repo''" and lib = cdk]
    by simp
  have c: "MaterialDashboardStack cdk ''/repo''
       \<lparr>entries = [''environment'' \<mapsto> ''dev'', ''region'' \<mapsto> ''us-east-1''],
        cloudfront = None\<rparr> =
      Inl (KeyError ''account'', empty_stack)"
    using missing_mandatory_key_raises
      [where config = "\<lparr>entries = [''environment'' \<mapsto> ''dev'', ''region'' \<mapsto> ''us-east-1''],
          cloudfront = None\<rparr>" and root = "''/repo''" and lib = cdk]
    by simp
  have d: "of_kind is_certificate (projr (MaterialDashboardStack cdk ''/repo'' dev_partial_profile)) = []
      \<and> of_kind is_alias_record (projr (MaterialDashboardStack cdk ''/repo'' dev_partial_profile)) = []"
    using missing_mandatory_key_raises
      [where config = dev_partial_profile and root = "''/repo''" and lib = cdk
        and s = "projr (MaterialDashboardStack cdk ''/repo'' dev_partial_profile)"]
      dev_partial_profile_builds dev_partial_profile_entries(4)
    by simp
  from a b c d dev_partial_profile_entries(4) show ?thesis
    by simp
qed

section \<open>The web ACL\<close>

text \<open>
  C4 asks for one web ACL with two rules in every production stack, and for none
  elsewhere. On the \<open>prod\<close> profile the evaluation of the arguments of the web ACL raises
  \<open>AttributeError\<close> for \<open>NoneActionProperty\<close>, the override action of the first rule, so
  that the web ACL is never created and the constructor is left with no web ACL in its
  state; the \<open>dev\<close> stack has none, as C4 says.
\<close>

theorem production_web_acl_raises:
  "web_acl_args cdk = Inl (AttributeError ''NoneActionProperty'')
   \<and> map_sum (\<lambda>(e, s). (e, of_kind is_web_acl s)) (of_kind is_web_acl)
       (MaterialDashboardStack cdk ''/repo'' prod_profile) =
     Inl (AttributeError ''NoneActionProperty'', [])
   \<and> map_sum fst (of_kind is_web_acl) (MaterialDashboardStack cdk ''/repo'' dev_profile) =
     Inr []"
  by (simp add: run_defs prod_profile_def dev_profile_def)

section \<open>The price class\<close>

text \<open>
  C5, as the specification words it, has the fall-back for an unknown price class come
  with a signal. The constructor run with the price class \<open>bogus\<close> succeeds and returns
  the very state it returns for \<open>PriceClass_100\<close>: nothing in the result tells the two
  runs apart.
\<close>

theorem unknown_price_class_counterexample:
  "price_class_map ''bogus'' = None
   \<and> \<not> isl (MaterialDashboardStack cdk ''/repo''
          (dev_profile\<lparr>cloudfront := Some [''priceClass'' \<mapsto> ''bogus'']\<rparr>))
   \<and> MaterialDashboardStack cdk ''/repo''
       (dev_profile\<lparr>cloudfront := Some [''priceClass'' \<mapsto> ''bogus'']\<rparr>) =
     MaterialDashboardStack cdk ''/repo''
       (dev_profile\<lparr>cloudfront := Some [''priceClass'' \<mapsto> ''PriceClass_100'']\<rparr>)"
  by (simp add: run_defs dev_profile_def)

text \<open>
  C5, amended: the three names \<open>PriceClass_100\<close>, \<open>PriceClass_200\<close> and
  \<open>PriceClass_All\<close> resolve to their price classes, every other string resolves to
  \<open>PRICE_CLASS_100\<close> without an error, and the fall-back is silent: two configurations
  that differ only in price class names resolving to the same price class give the
  same result.
\<close>

theorem price_class_fallback:
  "price_class_value ''PriceClass_100'' = PRICE_CLASS_100
   \<and> price_class_value ''PriceClass_200'' = PRICE_CLASS_200
   \<and> price_class_value ''PriceClass_All'' = PRICE_CLASS_ALL
   \<and> (input \<notin> {''PriceClass_100'', ''PriceClass_200'', ''PriceClass_All''} \<longrightarrow>
        price_class_value input = PRICE_CLASS_100)
   \<and> (price_class_value input = price_class_value input' \<longrightarrow>
        MaterialDashboardStack lib root (config\<lparr>cloudfront := Some (d(''priceClass'' \<mapsto> input))\<rparr>) =
        MaterialDashboardStack lib root (config\<lparr>cloudfront := Some (d(''priceClass'' \<mapsto> input'))\<rparr>))"
proof -
  have known: "price_class_value ''PriceClass_100'' = PRICE_CLASS_100
      \<and> price_class_value ''PriceClass_200'' = PRICE_CLASS_200
      \<and> price_class_value ''PriceClass_All'' = PRICE_CLASS_ALL"
    by (simp add: price_class_value_def price_class_map_def)
  have other: "price_class_value input = PRICE_CLASS_100"
    if "input \<notin> {''PriceClass_100'', ''PriceClass_200'', ''PriceClass_All''}"
    using that by (simp add: price_class_value_def price_class_map_def)
  have same: "MaterialDashboardStack lib root (config\<lparr>cloudfront := Some (d(''priceClass'' \<mapsto> input))\<rparr>) =
      MaterialDashboardStack lib root (config\<lparr>cloudfront := Some (d(''priceClass'' \<mapsto> input'))\<rparr>)"
    if eq: "price_class_value input = price_class_value input'"
    using eq
    by (simp add: MaterialDashboardStack_def price_class_input_def subscript_def raised_in_def
        and_then_Inr Let_def case_prod_beta)
  from known other same show ?thesis
    by blast
qed

theorem price_class_fallback_witness:
  "price_class_value ''PriceClass_50'' = PRICE_CLASS_100
   \<and> MaterialDashboardStack cdk ''/repo''
       (dev_profile\<lparr>cloudfront := Some [''priceClass'' \<mapsto> ''PriceClass_50'']\<rparr>) =
     MaterialDashboardStack cdk ''/repo''
       (dev_profile\<lparr>cloudfront := Some [''priceClass'' \<mapsto> ''PriceClass_100'']\<rparr>)"
proof -
  have a: "price_class_value ''PriceClass_50'' = PRICE_CLASS_100"
    using price_class_fallback [where input = "''PriceClass_50''"]
    by simp
  then have "price_class_value ''PriceClass_50'' = price_class_value ''PriceClass_100''"
    by (simp add: price_class_value_def price_class_map_def)
  then have "MaterialDashboardStack cdk ''/repo''
       (dev_profile\<lparr>cloudfront := Some [''priceClass'' \<mapsto> ''PriceClass_50'']\<rparr>) =
     MaterialDashboardStack cdk ''/repo''
       (dev_profile\<lparr>cloudfront := Some [''priceClass'' \<mapsto> ''PriceClass_100'']\<rparr>)"
    using price_class_fallback [where input = "''PriceClass_50''"
        and input' = "''PriceClass_100''" and root = "''/repo''" and config = dev_profile
        and d = Map.empty and lib = cdk]
    by blast
  with a show ?thesis
    by simp
qed

section \<open>Retention of the bucket\<close>

text \<open>
  C6: the one bucket of a stack that builds is destroyed on teardown with its objects
  deleted and keeps noncurrent versions for 30 days when the environment is \<open>dev\<close>; for
  every other environment it is retained, its objects are not deleted, and noncurrent
  versions are kept for 90 days.
\<close>

theorem retention_by_environment:
  assumes "MaterialDashboardStack lib root config = Inr s"
    and "entries config ''environment'' = Some environment"
  shows "of_kind is_bucket s =
      [(''WebsiteBucket'',
        Bucket (website_bucket environment (the (entries config ''account''))))]
    \<and> removal_policy (website_bucket environment account) =
        (if environment = ''dev'' then DESTROY else RETAIN)
    \<and> auto_delete_objects (website_bucket environment account) = (environment = ''dev'')
    \<and> map noncurrent_version_expiration (lifecycle_rules (website_bucket environment account)) =
        [Days (if environment = ''dev'' then 30 else 90)]"
proof -
  from assms(1) obtain e a input where
    "entries config ''environment'' = Some e"
    "entries config ''account'' = Some a"
    "price_class_input config = Inr input"
    by (rule build_inputs)
  with assms have "of_kind is_bucket s =
      [(''WebsiteBucket'',
        Bucket (website_bucket environment (the (entries config ''account''))))]"
    by (simp add: of_kind_def build_constructs [of lib root config s environment a input])
  then show ?thesis
    by (simp add: website_bucket_def)
qed

theorem retention_by_environment_witness:
  "of_kind is_bucket (projr (MaterialDashboardStack cdk ''/repo'' dev_profile)) =
     [(''WebsiteBucket'', Bucket (website_bucket ''dev'' ''123456789012''))]
   \<and> removal_policy (website_bucket ''dev'' ''123456789012'') = DESTROY
   \<and> auto_delete_objects (website_bucket ''dev'' ''123456789012'')
   \<and> map noncurrent_version_expiration (lifecycle_rules (website_bucket ''dev'' ''123456789012''))
       = [Days 30]
   \<and> of_kind is_bucket (projr (MaterialDashboardStack cdk ''/repo'' staging_profile)) =
     [(''WebsiteBucket'', Bucket (website_bucket ''staging'' ''123456789012''))]
   \<and> removal_policy (website_bucket ''staging'' ''123456789012'') = RETAIN
   \<and> \<not> auto_delete_objects (website_bucket ''staging'' ''123456789012'')
   \<and> map noncurrent_version_expiration
       (lifecycle_rules (website_bucket ''staging'' ''123456789012'')) = [Days 90]"
  using retention_by_environment [OF dev_profile_builds dev_profile_entries(1),
      of "''123456789012''"]
    retention_by_environment [OF staging_profile_builds staging_profile_entries(1),
      of "''123456789012''"]
  by (simp add: dev_profile_entries(2) staging_profile_entries(2))

section \<open>The certificate\<close>

text \<open>
  C8: a stack that builds has a certificate, bound to the hosted zone, exactly when
  \<open>domain\<close>, \<open>hostedZoneId\<close> and \<open>hostedZoneName\<close> are all present, that is, set to
  a string that is not empty, which is what the test of line 102 asks of them; the
  region of the certificate is \<open>us-east-1\<close> whatever the region of the configuration.
\<close>

theorem certificate_iff_custom_domain:
  assumes "MaterialDashboardStack lib root config = Inr s"
  shows "of_kind is_certificate s =
      (if custom_domain_enabled config then
         [(''SiteCertificate'', DnsValidatedCertificate
             \<lparr>domain_name = the (entries config ''domain''), hosted_zone = ''HostedZone'',
              cert_region = ''us-east-1''\<rparr>)]
       else [])
    \<and> of_kind is_hosted_zone s =
      (if custom_domain_enabled config then
         [(''HostedZone'', HostedZone
             \<lparr>zone_hosted_zone_id = the (entries config ''hostedZoneId''),
              zone_name = the (entries config ''hostedZoneName'')\<rparr>)]
       else [])
    \<and> (custom_domain_enabled config \<longleftrightarrow>
         (\<exists>d z n. entries config ''domain'' = Some d \<and> d \<noteq> []
            \<and> entries config ''hostedZoneId'' = Some z \<and> z \<noteq> []
            \<and> entries config ''hostedZoneName'' = Some n \<and> n \<noteq> []))"
proof -
  from assms obtain e a input where k:
    "entries config ''environment'' = Some e"
    "entries config ''account'' = Some a"
    "price_class_input config = Inr input"
    by (rule build_inputs)
  have c: "of_kind is_certificate s =
      (if custom_domain_enabled config then
         [(''SiteCertificate'', DnsValidatedCertificate
             \<lparr>domain_name = the (entries config ''domain''), hosted_zone = ''HostedZone'',
              cert_region = ''us-east-1''\<rparr>)]
       else [])"
    using assms k by (simp add: of_kind_def build_constructs [of lib root config s e a input])
  have z: "of_kind is_hosted_zone s =
      (if custom_domain_enabled config then
         [(''HostedZone'', HostedZone
             \<lparr>zone_hosted_zone_id = the (entries config ''hostedZoneId''),
              zone_name = the (entries config ''hostedZoneName'')\<rparr>)]
       else [])"
    using assms k by (simp add: of_kind_def build_constructs [of lib root config s e a input])
  have t: "custom_domain_enabled config \<longleftrightarrow>
         (\<exists>d z n. entries config ''domain'' = Some d \<and> d \<noteq> []
            \<and> entries config ''hostedZoneId'' = Some z \<and> z \<noteq> []
            \<and> entries config ''hostedZoneName'' = Some n \<and> n \<noteq> [])"
    by (auto simp: custom_domain_enabled_def truthy_def split: option.splits)
  from c z t show ?thesis
    by blast
qed

theorem certificate_iff_custom_domain_witness:
  "custom_domain_enabled dev_domain_profile
   \<and> entries dev_domain_profile ''region'' = Some ''eu-west-1''
   \<and> of_kind is_certificate (projr (MaterialDashboardStack cdk ''/repo'' dev_domain_profile)) =
      [(''SiteCertificate'', DnsValidatedCertificate
          \<lparr>domain_name = ''dev.example.com'', hosted_zone = ''HostedZone'',
           cert_region = ''us-east-1''\<rparr>)]
   \<and> of_kind is_hosted_zone (projr (MaterialDashboardStack cdk ''/repo'' dev_domain_profile)) =
      [(''HostedZone'', HostedZone \<lparr>zone_hosted_zone_id = ''Z123'', zone_name = ''example.com''\<rparr>)]
   \<and> \<not> custom_domain_enabled dev_profile
   \<and> of_kind is_certificate (projr (MaterialDashboardStack cdk ''/repo'' dev_profile)) = []"
  using certificate_iff_custom_domain [OF dev_domain_profile_builds]
    certificate_iff_custom_domain [OF dev_profile_builds]
  by (simp add: dev_domain_profile_entries dev_profile_entries)

section \<open>The outputs\<close>

text \<open>
  C9 asks for four outputs in the \<open>dev\<close> stack and five in the \<open>prod\<close> stack, the fifth
  being the id of the web ACL. On the \<open>prod\<close> profile the constructor raises
  \<open>AttributeError\<close> at line 188, before any output is created: there is no output at
  all. The \<open>dev\<close> stack has the four outputs that C9 names.
\<close>

theorem production_has_no_outputs:
  "map_sum (\<lambda>(e, s). (e, outputs s)) (\<lambda>s. map fst (outputs s))
     (MaterialDashboardStack cdk ''/repo'' prod_profile) =
   Inl (AttributeError ''NoneActionProperty'', [])
   \<and> map_sum fst (\<lambda>s. map fst (outputs s))
       (MaterialDashboardStack cdk ''/repo'' dev_profile) =
     Inr [''WebsiteBucketName'', ''CloudFrontDistributionId'', ''CloudFrontDomainName'',
          ''WebsiteUrl'']"
  by (simp add: run_defs prod_profile_def dev_profile_def)

section \<open>Which distribution the consumers use\<close>

text \<open>
  C10 has the alias records, the deployment and the outputs of a production stack with
  a custom domain refer to the distribution with the web ACL. On the \<open>prod\<close> profile,
  which has a custom domain, the constructor raises \<open>AttributeError\<close> at line 188 with
  the first distribution as its last construct: no \<open>DistributionWithWAF\<close>, no alias
  record, no deployment and no output exists.
\<close>

theorem production_has_no_consumers:
  "custom_domain_enabled prod_profile
   \<and> map_sum (\<lambda>(e, s). (e, map fst (constructs s), of_kind is_alias_record s, outputs s))
       (\<lambda>s. map fst (constructs s))
       (MaterialDashboardStack cdk ''/repo'' prod_profile) =
     Inl (AttributeError ''NoneActionProperty'',
          [''WebsiteBucket'', ''OriginAccessIdentity'', ''SpaFunction'', ''HostedZone'',
           ''SiteCertificate'', ''Distribution''],
          [], [])"
  by (simp add: run_defs prod_profile_def custom_domain_enabled_def)

section \<open>The SPA rewriting rule\<close>

text \<open>
  C1, as the specification words it: a path ending in \<open>/\<close> gets \<open>index.html\<close> appended,
  a path whose final segment has no dot gets \<open>/index.html\<close> appended, any other path is
  unchanged. The handler looks for a dot in the whole path, not in its final segment:
  for \<open>/v1.2/foo\<close> the final segment \<open>foo\<close> has no dot, the specified result is
  \<open>/v1.2/foo/index.html\<close>, and the handler returns the path as it came.
\<close>

theorem handler_final_segment_counterexample:
  "final_segment ''/v1.2/foo'' = ''foo''
   \<and> CHR ''.'' \<notin> set (final_segment ''/v1.2/foo'')
   \<and> spec_rewrite ''/v1.2/foo'' = ''/v1.2/foo/index.html''
   \<and> uri (handler \<lparr>uri = ''/v1.2/foo''\<rparr>) = ''/v1.2/foo''
   \<and> uri (handler \<lparr>uri = ''/v1.2/foo''\<rparr>) \<noteq> spec_rewrite ''/v1.2/foo''"
  by (simp add: final_segment_def spec_rewrite_def handler_def endswith_def)

text \<open>
  C1, amended: for every request, the handler appends \<open>index.html\<close> when the path ends
  in \<open>/\<close>, appends \<open>/index.html\<close> when the path does not end in \<open>/\<close> and contains no dot
  anywhere, and otherwise returns the path unchanged; no other field of the request
  changes. It agrees with the rule of the specification on every path that has no dot
  up to its last \<open>/\<close>, and maps \<open>/foo/\<close> and \<open>/foo\<close> to \<open>/foo/index.html\<close> and
  \<open>/foo.js\<close> to itself.
\<close>

theorem handler_rewrite:
  "(s \<noteq> [] \<and> last s = CHR ''/'' \<longrightarrow> uri (handler (r\<lparr>uri := s\<rparr>)) = s @ ''index.html'')
   \<and> (\<not> (s \<noteq> [] \<and> last s = CHR ''/'') \<and> CHR ''.'' \<notin> set s
        \<longrightarrow> uri (handler (r\<lparr>uri := s\<rparr>)) = s @ ''/index.html'')
   \<and> (\<not> (s \<noteq> [] \<and> last s = CHR ''/'') \<and> CHR ''.'' \<in> set s
        \<longrightarrow> uri (handler (r\<lparr>uri := s\<rparr>)) = s)
   \<and> request.more (handler (r\<lparr>uri := s\<rparr>)) = request.more r
   \<and> (CHR ''.'' \<notin> set (dir_part s)
        \<longrightarrow> uri (handler (r\<lparr>uri := s\<rparr>)) = spec_rewrite s)
   \<and> uri (handler \<lparr>uri = ''/foo/''\<rparr>) = ''/foo/index.html''
   \<and> uri (handler \<lparr>uri = ''/foo''\<rparr>) = ''/foo/index.html''
   \<and> uri (handler \<lparr>uri = ''/foo.js''\<rparr>) = ''/foo.js''"
proof -
  have ex: "uri (handler \<lparr>uri = ''/foo/''\<rparr>) = ''/foo/index.html''
      \<and> uri (handler \<lparr>uri = ''/foo''\<rparr>) = ''/foo/index.html''
      \<and> uri (handler \<lparr>uri = ''/foo.js''\<rparr>) = ''/foo.js''"
    by (simp add: handler_def endswith_def)
  have gen: "uri (handler (r\<lparr>uri := s\<rparr>)) =
      (if s \<noteq> [] \<and> last s = CHR ''/'' then s @ ''index.html''
       else if CHR ''.'' \<notin> set s then s @ ''/index.html'' else s)"
    by (simp add: handler_def endswith_slash includes_single)
  have more: "request.more (handler (r\<lparr>uri := s\<rparr>)) = request.more r"
    by (simp add: handler_def)
  have agree: "uri (handler (r\<lparr>uri := s\<rparr>)) = spec_rewrite s"
    if "CHR ''.'' \<notin> set (dir_part s)"
  proof -
    from that have "CHR ''.'' \<in> set s \<longleftrightarrow> CHR ''.'' \<in> set (final_segment s)"
      by (simp add: dot_in_path [of s])
    then show ?thesis
      by (simp add: gen spec_rewrite_def final_segment_Nil)
  qed
  from ex gen more agree show ?thesis
    by simp
qed

theorem handler_rewrite_witness:
  "uri (handler \<lparr>uri = ''/a/b/''\<rparr>) = ''/a/b/index.html''
   \<and> uri (handler \<lparr>uri = ''/a/b''\<rparr>) = ''/a/b/index.html''
   \<and> uri (handler \<lparr>uri = ''/a/b.css''\<rparr>) = ''/a/b.css''
   \<and> uri (handler \<lparr>uri = ''/a/b''\<rparr>) = spec_rewrite ''/a/b''"
proof -
  have a: "uri (handler \<lparr>uri = ''/a/b/''\<rparr>) = ''/a/b/index.html''"
    using handler_rewrite [of "''/a/b/''" "\<lparr>uri = ''''\<rparr>"] by simp
  have b: "uri (handler \<lparr>uri = ''/a/b''\<rparr>) = ''/a/b/index.html''"
    using handler_rewrite [of "''/a/b''" "\<lparr>uri = ''''\<rparr>"] by simp
  have c: "uri (handler \<lparr>uri = ''/a/b.css''\<rparr>) = ''/a/b.css''"
    using handler_rewrite [of "''/a/b.css''" "\<lparr>uri = ''''\<rparr>"] by simp
  have d: "uri (handler \<lparr>uri = ''/a/b''\<rparr>) = spec_rewrite ''/a/b''"
    using handler_rewrite [of "''/a/b''" "\<lparr>uri = ''''\<rparr>"] by (simp add: dir_part_def spec_rewrite_def final_segment_def)
  from a b c d show ?thesis by simp
qed

section \<open>The record name relative to the zone\<close>

text \<open>
  C7: \<open>record_name\<close> returns the domain with the trailing dot and zone name cut off when
  the domain ends with them, and the domain unchanged otherwise; for
  \<open>dev.example.com\<close> in \<open>example.com\<close> it is \<open>dev\<close>, and \<open>example.com\<close> in
  \<open>other.com\<close> stays \<open>example.com\<close>.
\<close>

theorem record_name_strips_zone_suffix:
  "record_name (p @ ''.'' @ z) z = p
   \<and> (\<not> suffix (''.'' @ z) d \<longrightarrow> record_name d z = d)
   \<and> record_name ''dev.example.com'' ''example.com'' = ''dev''
   \<and> record_name ''example.com'' ''other.com'' = ''example.com''"
proof -
  have "slice_to_neg (p @ ''.'' @ z) (length (''.'' @ z)) = p"
    by (rule slice_to_neg_append)
  then have strip: "record_name (p @ ''.'' @ z) z = p"
    using endswith_append [of p "''.'' @ z"] by (simp add: record_name_def)
  have keep: "\<not> suffix (''.'' @ z) d \<longrightarrow> record_name d z = d"
    by (simp add: record_name_def endswith_suffix)
  have ex: "record_name ''dev.example.com'' ''example.com'' = ''dev''
      \<and> record_name ''example.com'' ''other.com'' = ''example.com''"
    by (simp add: record_name_def endswith_def slice_to_neg_def)
  from strip keep ex show ?thesis by simp
qed

theorem record_name_strips_zone_suffix_witness:
  "\<not> suffix (''.'' @ ''example.org'') ''www.example.com''
   \<and> record_name ''www.example.com'' ''example.org'' = ''www.example.com''
   \<and> record_name (''www'' @ ''.'' @ ''example.org'') ''example.org'' = ''www''"
proof -
  have n: "\<not> suffix (''.'' @ ''example.org'') ''www.example.com''"
    by (simp add: endswith_suffix [symmetric] endswith_def)
  from n record_name_strips_zone_suffix [of "''www''" "''example.org''" "''www.example.com''"]
  show ?thesis by simp
qed

end
